theory Spec2Isabelle
  imports Complex_Main "HOL-Library.Word"
begin

section \<open>The transform converter (fixposition_driver_lib/src/tf.cpp)\<close>

subsection \<open>Data\<close>

text \<open>
  The numeric type of the driver is \<open>double\<close>. The converter only stores the numbers
  that its helpers hand back and performs no arithmetic on them, so the scalar type is the
  type parameter \<open>'d\<close> throughout. \<open>Vector3d\<close> and \<open>Quaterniond\<close> stand for the Eigen
  types of the same names, with one field per coefficient.
\<close>

record 'd Vector3d =
  vec_x :: 'd
  vec_y :: 'd
  vec_z :: 'd

record 'd Quaterniond =
  quat_w :: 'd
  quat_x :: 'd
  quat_y :: 'd
  quat_z :: 'd

text \<open>
  \<open>TfData\<close> is declared in \<open>converter/tf.hpp\<close>, which is not among the sources. The
  record has the four members that \<open>ConvertTokens\<close> assigns.
\<close>

record 'd TfData =
  frame_id :: string
  child_frame_id :: string
  translation :: "'d Vector3d"
  rotation :: "'d Quaterniond"

text \<open>
  An observer is a \<open>std::function<void(const TfData&)>\<close>. It reads the record, acts on
  whatever lies outside the converter (the type parameter \<open>'w\<close>) and either returns or
  throws (the second component; \<open>'e\<close> is the type of exceptions).
\<close>

type_synonym ('d, 'w, 'e) observer = "'d TfData \<Rightarrow> 'w \<Rightarrow> 'w \<times> 'e option"

text \<open>
  The members \<open>msg_\<close> and \<open>obs_\<close> of the converter (an identifier cannot end in an
  underscore here, so the fields are \<open>msg\<close> and \<open>obs\<close>), together with the two things
  a call can touch besides them: the outside world of the observers and the text written to
  \<open>std::cout\<close>.
\<close>

record ('d, 'w, 'e) state =
  msg :: "'d TfData"
  obs :: "('d, 'w, 'e) observer list"
  world :: 'w
  cout :: string

text \<open>msg field indices\<close>

definition msg_type_idx :: nat where [simp]: "msg_type_idx = 1"
definition msg_version_idx :: nat where [simp]: "msg_version_idx = 2"
definition from_frame_idx :: nat where [simp]: "from_frame_idx = 3"
definition to_frame_idx :: nat where [simp]: "to_frame_idx = 4"
definition translation_x_idx :: nat where [simp]: "translation_x_idx = 5"
definition translation_y_idx :: nat where [simp]: "translation_y_idx = 6"
definition translation_z_idx :: nat where [simp]: "translation_z_idx = 7"
definition orientation_w_idx :: nat where [simp]: "orientation_w_idx = 8"
definition orientation_x_idx :: nat where [simp]: "orientation_x_idx = 9"
definition orientation_y_idx :: nat where [simp]: "orientation_y_idx = 10"
definition orientation_z_idx :: nat where [simp]: "orientation_z_idx = 11"

subsection \<open>Printing a size\<close>

text \<open>What \<open>std::cout << tokens.size()\<close> writes: the decimal digits of the number.\<close>

fun show_nat :: "nat \<Rightarrow> string" where
  "show_nat n =
     (if n < 10 then [''0123456789'' ! n]
      else show_nat (n div 10) @ [''0123456789'' ! (n mod 10)])"

declare show_nat.simps [simp del]

subsection \<open>The observer loop\<close>

text \<open>
  \<open>for (auto& ob : obs_) { ob(msg_); }\<close>: the observers are called in the order of the
  vector, each with the member \<open>msg_\<close>. The loop has no handler, so the first exception
  leaves it.
\<close>

fun notify ::
  "('d, 'w, 'e) observer list \<Rightarrow> ('d, 'w, 'e) state \<Rightarrow> 'e option \<times> ('d, 'w, 'e) state"
where
  "notify [] s = (None, s)"
| "notify (ob # rest) s =
     (case ob (msg s) (world s) of
        (w, Some e) \<Rightarrow> (Some e, s\<lparr>world := w\<rparr>)
      | (w, None) \<Rightarrow> notify rest (s\<lparr>world := w\<rparr>))"

subsection \<open>ConvertTokens\<close>

text \<open>
  \<open>TfConverter::ConvertTokens\<close>. Three things it uses are declared in headers that are
  not among the sources and are parameters here: \<open>dflt\<close> is the value of \<open>TfData()\<close>,
  \<open>toVec\<close> is \<open>Vector3ToEigen\<close> and \<open>toQuat\<close> is \<open>Vector4ToEigen\<close>; either helper returns a
  value (\<open>Inr\<close>) or throws (\<open>Inl\<close>). The result is the exception that leaves the call, if
  any, and the state the call leaves behind. The reads \<open>tokens.at(i)\<close> are in range,
  since they come after the size check.
\<close>

definition ConvertTokens ::
  "'d TfData \<Rightarrow> (string \<Rightarrow> string \<Rightarrow> string \<Rightarrow> 'e + 'd Vector3d) \<Rightarrow>
   (string \<Rightarrow> string \<Rightarrow> string \<Rightarrow> string \<Rightarrow> 'e + 'd Quaterniond) \<Rightarrow>
   string list \<Rightarrow> ('d, 'w, 'e) state \<Rightarrow> 'e option \<times> ('d, 'w, 'e) state"
where
  "ConvertTokens dflt toVec toQuat tokens s =
     (if length tokens \<noteq> 12 then
        (None,
         s\<lparr>cout := cout s @ ''Error in parsing TF string with '' @ show_nat (length tokens)
                    @ '' fields! TFs will be empty.'' @ [CHR 0x0A],
           msg := dflt\<rparr>)
      else
        let s1 = s\<lparr>msg := (msg s)\<lparr>frame_id := ''FP_'' @ tokens ! from_frame_idx\<rparr>\<rparr>;
            s2 = s1\<lparr>msg := (msg s1)\<lparr>child_frame_id := ''FP_'' @ tokens ! to_frame_idx\<rparr>\<rparr>
        in
          case toVec (tokens ! translation_x_idx) (tokens ! translation_y_idx)
                  (tokens ! translation_z_idx) of
            Inl e \<Rightarrow> (Some e, s2)
          | Inr t \<Rightarrow>
              let s3 = s2\<lparr>msg := (msg s2)\<lparr>translation := t\<rparr>\<rparr> in
              case toQuat (tokens ! orientation_w_idx) (tokens ! orientation_x_idx)
                      (tokens ! orientation_y_idx) (tokens ! orientation_z_idx) of
                Inl e \<Rightarrow> (Some e, s3)
              | Inr r \<Rightarrow>
                  let s4 = s3\<lparr>msg := (msg s3)\<lparr>rotation := r\<rparr>\<rparr> in
                  notify (obs s4) s4)"

subsection \<open>The helpers that turn text into numbers\<close>

text \<open>
  Modelled from the spec: \<open>Vector3ToEigen\<close> and \<open>Vector4ToEigen\<close> are defined in
  \<open>helper.hpp\<close>, which is not among the sources. The spec says that every numeric field
  of the record equals the parsed value of its source token, the translation as x, y, z
  and the orientation as w, x, y, z. The conversion of one token is the parameter
  \<open>parse\<close>; it returns the number or throws. The tokens are converted from left to
  right, which only decides whose exception is seen when several tokens are bad.
\<close>

definition Vector3ToEigen ::
  "(string \<Rightarrow> 'e + 'd) \<Rightarrow> string \<Rightarrow> string \<Rightarrow> string \<Rightarrow> 'e + 'd Vector3d"
where
  "Vector3ToEigen parse x y z =
     (case parse x of Inl e \<Rightarrow> Inl e | Inr a \<Rightarrow>
      case parse y of Inl e \<Rightarrow> Inl e | Inr b \<Rightarrow>
      case parse z of Inl e \<Rightarrow> Inl e | Inr c \<Rightarrow>
        Inr \<lparr>vec_x = a, vec_y = b, vec_z = c\<rparr>)"

definition Vector4ToEigen ::
  "(string \<Rightarrow> 'e + 'd) \<Rightarrow> string \<Rightarrow> string \<Rightarrow> string \<Rightarrow> string \<Rightarrow> 'e + 'd Quaterniond"
where
  "Vector4ToEigen parse w x y z =
     (case parse w of Inl e \<Rightarrow> Inl e | Inr a \<Rightarrow>
      case parse x of Inl e \<Rightarrow> Inl e | Inr b \<Rightarrow>
      case parse y of Inl e \<Rightarrow> Inl e | Inr c \<Rightarrow>
      case parse z of Inl e \<Rightarrow> Inl e | Inr d \<Rightarrow>
        Inr \<lparr>quat_w = a, quat_x = b, quat_y = c, quat_z = d\<rparr>)"

section \<open>The node (fixposition_driver_ros2/src/fixposition_driver_node.cpp)\<close>

subsection \<open>The reconnect delay\<close>

text \<open>
  The parameters \<open>params_.fp_output.rate\<close> and \<open>params_.fp_output.reconnect_delay\<close>. They
  are declared in a header that is not among the sources. The delay is printed with
  \<open>%.1f\<close> and cast with \<open>(uint64_t)\<close>, so it is a floating-point number of seconds;
  it is given here by its exact value, a real number (every finite double is one, and
  the cast below is the only operation on it). The rate is only handed to
  \<open>rclcpp::Rate\<close>, so its type is a parameter.
\<close>

record 'r FpOutputParams =
  rate :: 'r
  reconnect_delay :: real

text \<open>
  \<open>(uint64_t)d\<close> on a floating-point \<open>d\<close>: the fractional part is discarded (truncation
  towards zero); the behaviour is undefined (\<open>None\<close>) when the truncated value is not a
  \<open>uint64_t\<close>.
\<close>

definition to_uint64 :: "real \<Rightarrow> 64 word option" where
  "to_uint64 d =
     (if - 1 < d \<and> d < 2 ^ 64 then Some (word_of_int (if 0 \<le> d then \<lfloor>d\<rfloor> else \<lceil>d\<rceil>))
      else None)"

text \<open>
  \<open>std::chrono::nanoseconds((uint64_t)params_.fp_output.reconnect_delay * 1000 * 1000 * 1000)\<close>:
  the cast binds tighter than the products, which are taken in \<open>uint64_t\<close> and wrap; the
  count of a \<open>nanoseconds\<close> is a signed 64-bit integer, read off the same bits.
\<close>

definition reconnect_delay_ns :: "real \<Rightarrow> int option" where
  "reconnect_delay_ns d =
     (case to_uint64 d of
        None \<Rightarrow> None
      | Some u \<Rightarrow> Some (sint (u * 1000 * 1000 * 1000)))"

subsection \<open>Run\<close>

text \<open>The calls that \<open>Run\<close> makes, in the order it makes them.\<close>

datatype 'r action =
    RunOnce
  | spin_some
  | printf_reconnecting real
  | sleep_for int
  | Connect
  | rate_sleep 'r

text \<open>
  What the loop meets each time it comes back to its head: \<open>rclcpp::ok()\<close> is false
  (\<open>Shutdown\<close>), or it is true and the \<open>RunOnce\<close> of that cycle returns the given
  \<open>connection_ok\<close>. \<open>RunOnce\<close> itself is in the library and not among the sources.
\<close>

datatype seen = Shutdown | Cycle bool

text \<open>The body of the loop, given what \<open>RunOnce\<close> returned.\<close>

definition iteration :: "'r FpOutputParams \<Rightarrow> int \<Rightarrow> bool \<Rightarrow> 'r action list" where
  "iteration p delay connection_ok =
     [RunOnce, spin_some] @
     (if \<not> connection_ok then
        [printf_reconnecting (reconnect_delay p), sleep_for delay, Connect]
      else [rate_sleep (rate p)])"

text \<open>
  \<open>while (rclcpp::ok()) { ... }\<close> against a finite list of what the loop sees. The first
  component of the result says whether the loop has been left; when the list ends before
  a \<open>Shutdown\<close>, the loop is still running. The second component is the calls made so far.
\<close>

fun Run_loop :: "'r FpOutputParams \<Rightarrow> int \<Rightarrow> seen list \<Rightarrow> bool \<times> 'r action list" where
  "Run_loop p delay [] = (False, [])"
| "Run_loop p delay (Shutdown # es) = (True, [])"
| "Run_loop p delay (Cycle connection_ok # es) =
     (let (left, calls) = Run_loop p delay es
      in (left, iteration p delay connection_ok @ calls))"

text \<open>\<open>FixpositionDriverNode::Run\<close>; \<open>None\<close> when the cast of the delay is undefined.\<close>

definition Run :: "'r FpOutputParams \<Rightarrow> seen list \<Rightarrow> (bool \<times> 'r action list) option" where
  "Run p es =
     (case reconnect_delay_ns (reconnect_delay p) of
        None \<Rightarrow> None
      | Some delay \<Rightarrow> Some (Run_loop p delay es))"

subsection \<open>Publishing\<close>

text \<open>The publishers of the node.\<close>

datatype publisher =
    rawimu_pub | corrimu_pub | navsatfix_pub | navsatfix_gnss1_pub | navsatfix_gnss2_pub
  | odometry_pub | poiimu_pub | vrtk_pub | odometry_enu0_pub | orientation_pub
  | eul_pub | eul_imu_pub

text \<open>
  \<open>NavSatFixData\<close> is declared in the library; the node reads its member \<open>frame_id\<close>
  (the field \<open>nav_frame_id\<close>) and hands the rest on as it is.
\<close>

record NavSatFixData =
  nav_frame_id :: string

text \<open>
  \<open>FixpositionDriverNode::BestGnssPosToPublishNavSatFix\<close>. \<open>NovToData\<close> and
  \<open>NavSatFixDataToMsg\<close> are in headers that are not among the sources and are
  parameters; \<open>subscription_count\<close> is what \<open>get_subscription_count()\<close> returns for each
  publisher. The result is the list of messages published, each with its publisher.
\<close>

definition BestGnssPosToPublishNavSatFix ::
  "('h \<Rightarrow> 'p \<Rightarrow> 'a NavSatFixData_scheme) \<Rightarrow> ('a NavSatFixData_scheme \<Rightarrow> 'm) \<Rightarrow>
   (publisher \<Rightarrow> nat) \<Rightarrow> 'h \<Rightarrow> 'p \<Rightarrow> (publisher \<times> 'm) list"
where
  "BestGnssPosToPublishNavSatFix NovToData NavSatFixDataToMsg subscription_count header payload =
     (let nav_sat_fix = NovToData header payload in
      if nav_frame_id nav_sat_fix = ''GNSS1'' \<or> nav_frame_id nav_sat_fix = ''GNSS'' then
        (if subscription_count navsatfix_gnss1_pub > 0
         then [(navsatfix_gnss1_pub, NavSatFixDataToMsg nav_sat_fix)] else [])
      else if nav_frame_id nav_sat_fix = ''GNSS2'' then
        (if subscription_count navsatfix_gnss2_pub > 0
         then [(navsatfix_gnss2_pub, NavSatFixDataToMsg nav_sat_fix)] else [])
      else [])"

text \<open>
  The messages of the TF observer: of a \<open>TransformStamped\<close> the observer reads the header
  and the child frame id; a \<open>Vector3Stamped\<close> is a header and a vector. The type of a
  time stamp is the parameter \<open>'t\<close>.
\<close>

record 't Header =
  stamp :: 't
  header_frame_id :: string

record 't TransformStamped =
  tf_header :: "'t Header"
  tf_child_frame_id :: string

record ('t, 'd) Vector3Stamped =
  v3_header :: "'t Header"
  vector :: "'d Vector3d"

text \<open>
  The observer that \<open>RegisterObservers\<close> adds to the TF converter (the lambda under
  \<open>format == "TF"\<close>). \<open>TfDataToMsg\<close> and \<open>gnss_tf::QuatToEul\<close> are in headers that are not
  among the sources and are parameters. The world of this observer is the list of
  messages published so far, each with its publisher; the calls to the broadcasters are
  commented out in the source.
\<close>

definition TfObserver ::
  "('d::zero TfData \<Rightarrow> ('t, 'a) TransformStamped_scheme) \<Rightarrow> ('d Quaterniond \<Rightarrow> 'd Vector3d) \<Rightarrow>
   ('d, (publisher \<times> ('t, 'd) Vector3Stamped) list, 'e) observer"
where
  "TfObserver TfDataToMsg QuatToEul data published =
     (let tf = TfDataToMsg data in
      if tf_child_frame_id tf = ''FP_IMUH'' \<and> header_frame_id (tf_header tf) = ''FP_POI'' then
        let imu_ypr_eigen = QuatToEul (rotation data);
            imu_ypr_eigen = imu_ypr_eigen\<lparr>vec_x := 0\<rparr>;
            imu_ypr =
              \<lparr>v3_header = \<lparr>stamp = stamp (tf_header tf), header_frame_id = ''FP_POI''\<rparr>,
               vector = \<lparr>vec_x = vec_x imu_ypr_eigen, vec_y = vec_y imu_ypr_eigen,
                         vec_z = vec_z imu_ypr_eigen\<rparr>\<rparr>
        in (published @ [(eul_imu_pub, imu_ypr)], None)
      else (published, None))"

section \<open>Frames, observers and conversions for the concrete runs\<close>

text \<open>
  The exceptions of the concrete runs: the one a conversion throws on text that is not a
  number, and one for an observer that fails.
\<close>

datatype exn = invalid_argument | observer_failure

text \<open>
  Modelled from the spec: the conversion of one token, for the concrete runs (the
  conversion that \<open>helper.hpp\<close> uses is not among the sources). A token made of an optional minus sign, decimal digits and an optional fraction (a point
  followed by digits) is numeric and denotes its decimal value; any other token is
  non-numeric text, on which the conversion fails.
\<close>

definition digit_of :: "char \<Rightarrow> nat option" where
  "digit_of c =
     map_of [(CHR ''0'', 0), (CHR ''1'', 1), (CHR ''2'', 2), (CHR ''3'', 3), (CHR ''4'', 4),
             (CHR ''5'', 5), (CHR ''6'', 6), (CHR ''7'', 7), (CHR ''8'', 8), (CHR ''9'', 9)] c"

fun digits_val :: "nat \<Rightarrow> string \<Rightarrow> nat option" where
  "digits_val acc [] = Some acc"
| "digits_val acc (c # cs) =
     (case digit_of c of None \<Rightarrow> None | Some d \<Rightarrow> digits_val (10 * acc + d) cs)"

definition parse_decimal :: "string \<Rightarrow> exn + real" where
  "parse_decimal s =
     (let negative = (case s of [] \<Rightarrow> False | c # _ \<Rightarrow> c = CHR ''-'');
          body = (if negative then tl s else s);
          whole = takeWhile (\<lambda>c. c \<noteq> CHR ''.'') body;
          rest = dropWhile (\<lambda>c. c \<noteq> CHR ''.'') body;
          fraction = tl rest
      in
        if whole = [] \<or> (rest \<noteq> [] \<and> fraction = []) then Inl invalid_argument
        else
          case (digits_val 0 whole, digits_val 0 fraction) of
            (Some i, Some f) \<Rightarrow>
              Inr ((if negative then - 1 else 1) * (real i + real f / 10 ^ length fraction))
          | _ \<Rightarrow> Inl invalid_argument)"

text \<open>
  Modelled from the spec: the default/empty record \<open>TfData()\<close>, for the concrete runs
  (its constructor is in \<open>tf.hpp\<close>, which is not among the sources). Its frame names are
  empty; the translation is zero and the rotation the identity.
\<close>

definition TfData_default :: "real TfData" where
  "TfData_default =
     \<lparr>frame_id = [], child_frame_id = [],
      translation = \<lparr>vec_x = 0, vec_y = 0, vec_z = 0\<rparr>,
      rotation = \<lparr>quat_w = 1, quat_x = 0, quat_y = 0, quat_z = 0\<rparr>\<rparr>"

text \<open>
  Observers for the concrete runs. The world is a log of calls: \<open>recorder i\<close>
  appends its number and the record it was given and returns; \<open>failing i\<close> does the same
  and then throws.
\<close>

definition recorder :: "nat \<Rightarrow> ('d, (nat \<times> 'd TfData) list, exn) observer" where
  "recorder i = (\<lambda>m w. (w @ [(i, m)], None))"


text \<open>The frame of the spec's scenario, and the same frame cut to ten tokens.\<close>

definition tf_frame :: "string list" where
  "tf_frame = [''$FP'', ''TF'', ''1'', ''POI'', ''ECEF'', ''1.0'', ''2.0'', ''3.0'',
               ''1.0'', ''0.0'', ''0.0'', ''0.0'']"

definition tf_frame10 :: "string list" where
  "tf_frame10 = take 10 tf_frame"

text \<open>A frame from the inertial unit to the point of interest, with a fraction and a sign.\<close>

definition imu_frame :: "string list" where
  "imu_frame = [''$FP'', ''TF'', ''1'', ''POI'', ''IMUH'', ''0.5'', ''-1.25'', ''0'',
                ''0.0'', ''1'', ''0'', ''0'']"




section \<open>Properties\<close>

subsection \<open>Auxiliary facts about the converter\<close>

lemma TfData_all_updates:
  "(m :: 'd TfData)\<lparr>frame_id := a, child_frame_id := b, translation := t, rotation := r\<rparr> =
     \<lparr>frame_id = a, child_frame_id = b, translation = t, rotation = r\<rparr>"
  by (cases m) simp

lemma notify_keeps:
  "msg (snd (notify os s)) = msg s \<and> obs (snd (notify os s)) = obs s \<and>
   cout (snd (notify os s)) = cout s"
  by (induction os arbitrary: s) (auto split: prod.splits option.splits)

lemma ConvertTokens_12:
  assumes "length tokens = 12"
    and "toVec (tokens ! 5) (tokens ! 6) (tokens ! 7) = Inr t"
    and "toQuat (tokens ! 8) (tokens ! 9) (tokens ! 10) (tokens ! 11) = Inr r"
  shows "ConvertTokens dflt toVec toQuat tokens s =
           notify (obs s)
             (s\<lparr>msg := \<lparr>frame_id = ''FP_'' @ tokens ! 3, child_frame_id = ''FP_'' @ tokens ! 4,
                        translation = t, rotation = r\<rparr>\<rparr>)"
  using assms by (simp add: ConvertTokens_def TfData_all_updates)

lemma parse_decimal_literals:
  "parse_decimal ''0.0'' = Inr 0" "parse_decimal ''1.0'' = Inr 1"
  "parse_decimal ''2.0'' = Inr 2" "parse_decimal ''3.0'' = Inr 3"
  by (simp_all add: parse_decimal_def digit_of_def)












lemma tf_frame10_length: "length tf_frame10 = 10"
  by (simp add: tf_frame10_def tf_frame_def)

subsection \<open>The field mapping of a transform frame\<close>

text \<open>
  Claim C1. For every frame of 12 tokens whose tokens 5 to 11 are converted to numbers,
  \<open>ConvertTokens\<close> leaves a record whose frame id (the source frame, read at
  \<open>from_frame_idx\<close>) is \<open>FP_\<close> followed by token 3, whose child frame id (the target
  frame, read at \<open>to_frame_idx\<close>) is \<open>FP_\<close> followed by token 4, whose translation is
  the numbers of tokens 5, 6, 7 as x, y, z, and whose rotation is the numbers of tokens
  8, 9, 10, 11 as w, x, y, z. In particular the frame of the spec's scenario is decoded,
  from any state, to \<open>FP_POI\<close>, \<open>FP_ECEF\<close>, translation (1, 2, 3) and rotation
  (1, 0, 0, 0).
\<close>

theorem ConvertTokens_field_mapping:
  "(length tokens = 12 \<longrightarrow>
    parse (tokens ! 5) = Inr tx \<longrightarrow> parse (tokens ! 6) = Inr ty \<longrightarrow>
    parse (tokens ! 7) = Inr tz \<longrightarrow>
    parse (tokens ! 8) = Inr qw \<longrightarrow> parse (tokens ! 9) = Inr qx \<longrightarrow>
    parse (tokens ! 10) = Inr qy \<longrightarrow> parse (tokens ! 11) = Inr qz \<longrightarrow>
    msg (snd (ConvertTokens dflt (Vector3ToEigen parse) (Vector4ToEigen parse) tokens s)) =
      \<lparr>frame_id = ''FP_'' @ tokens ! 3, child_frame_id = ''FP_'' @ tokens ! 4,
       translation = \<lparr>vec_x = tx, vec_y = ty, vec_z = tz\<rparr>,
       rotation = \<lparr>quat_w = qw, quat_x = qx, quat_y = qy, quat_z = qz\<rparr>\<rparr>)
   \<and> msg (snd (ConvertTokens dflt0 (Vector3ToEigen parse_decimal)
                  (Vector4ToEigen parse_decimal) tf_frame s0)) =
      \<lparr>frame_id = ''FP_POI'', child_frame_id = ''FP_ECEF'',
       translation = \<lparr>vec_x = 1, vec_y = 2, vec_z = 3\<rparr>,
       rotation = \<lparr>quat_w = 1, quat_x = 0, quat_y = 0, quat_z = 0\<rparr>\<rparr>"
proof (intro conjI impI)
  assume len: "length tokens = 12"
    and p: "parse (tokens ! 5) = Inr tx" "parse (tokens ! 6) = Inr ty"
      "parse (tokens ! 7) = Inr tz" "parse (tokens ! 8) = Inr qw" "parse (tokens ! 9) = Inr qx"
      "parse (tokens ! 10) = Inr qy" "parse (tokens ! 11) = Inr qz"
  have toVec: "Vector3ToEigen parse (tokens ! 5) (tokens ! 6) (tokens ! 7) =
              Inr \<lparr>vec_x = tx, vec_y = ty, vec_z = tz\<rparr>"
    using p by (simp add: Vector3ToEigen_def)
  have toQuat: "Vector4ToEigen parse (tokens ! 8) (tokens ! 9) (tokens ! 10) (tokens ! 11) =
              Inr \<lparr>quat_w = qw, quat_x = qx, quat_y = qy, quat_z = qz\<rparr>"
    using p by (simp add: Vector4ToEigen_def)
  show "msg (snd (ConvertTokens dflt (Vector3ToEigen parse) (Vector4ToEigen parse) tokens s)) =
      \<lparr>frame_id = ''FP_'' @ tokens ! 3, child_frame_id = ''FP_'' @ tokens ! 4,
       translation = \<lparr>vec_x = tx, vec_y = ty, vec_z = tz\<rparr>,
       rotation = \<lparr>quat_w = qw, quat_x = qx, quat_y = qy, quat_z = qz\<rparr>\<rparr>"
    using len toVec toQuat by (simp add: ConvertTokens_12 notify_keeps)
next
  have len: "length tf_frame = 12" by (simp add: tf_frame_def)
  have toVec: "Vector3ToEigen parse_decimal (tf_frame ! 5) (tf_frame ! 6) (tf_frame ! 7) =
              Inr \<lparr>vec_x = 1, vec_y = 2, vec_z = 3\<rparr>"
    by (simp add: tf_frame_def Vector3ToEigen_def parse_decimal_literals)
  have toQuat: "Vector4ToEigen parse_decimal (tf_frame ! 8) (tf_frame ! 9) (tf_frame ! 10)
              (tf_frame ! 11) = Inr \<lparr>quat_w = 1, quat_x = 0, quat_y = 0, quat_z = 0\<rparr>"
    by (simp add: tf_frame_def Vector4ToEigen_def parse_decimal_literals)
  show "msg (snd (ConvertTokens dflt0 (Vector3ToEigen parse_decimal)
                  (Vector4ToEigen parse_decimal) tf_frame s0)) =
      \<lparr>frame_id = ''FP_POI'', child_frame_id = ''FP_ECEF'',
       translation = \<lparr>vec_x = 1, vec_y = 2, vec_z = 3\<rparr>,
       rotation = \<lparr>quat_w = 1, quat_x = 0, quat_y = 0, quat_z = 0\<rparr>\<rparr>"
    using len toVec toQuat by (simp add: ConvertTokens_12 notify_keeps) (simp add: tf_frame_def)
qed

theorem ConvertTokens_field_mapping_witness:
  "length imu_frame = 12 \<and>
   parse_decimal (imu_frame ! 5) = Inr (1 / 2) \<and> parse_decimal (imu_frame ! 6) = Inr (- 5 / 4) \<and>
   parse_decimal (imu_frame ! 7) = Inr 0 \<and> parse_decimal (imu_frame ! 8) = Inr 0 \<and>
   parse_decimal (imu_frame ! 9) = Inr 1 \<and> parse_decimal (imu_frame ! 10) = Inr 0 \<and>
   parse_decimal (imu_frame ! 11) = Inr 0 \<and>
   msg (snd (ConvertTokens TfData_default (Vector3ToEigen parse_decimal)
               (Vector4ToEigen parse_decimal) imu_frame
               \<lparr>msg = TfData_default, obs = [recorder 1], world = [], cout = []\<rparr>)) =
     \<lparr>frame_id = ''FP_POI'', child_frame_id = ''FP_IMUH'',
      translation = \<lparr>vec_x = 1 / 2, vec_y = - 5 / 4, vec_z = 0\<rparr>,
      rotation = \<lparr>quat_w = 0, quat_x = 1, quat_y = 0, quat_z = 0\<rparr>\<rparr>"
proof -
  have len: "length imu_frame = 12" by (simp add: imu_frame_def)
  have p: "parse_decimal (imu_frame ! 5) = Inr (1 / 2)"
    "parse_decimal (imu_frame ! 6) = Inr (- 5 / 4)"
    "parse_decimal (imu_frame ! 7) = Inr 0" "parse_decimal (imu_frame ! 8) = Inr 0"
    "parse_decimal (imu_frame ! 9) = Inr 1" "parse_decimal (imu_frame ! 10) = Inr 0"
    "parse_decimal (imu_frame ! 11) = Inr 0"
    by (simp_all add: imu_frame_def parse_decimal_def digit_of_def)
  from ConvertTokens_field_mapping [THEN conjunct1, rule_format, OF len p,
      of TfData_default "\<lparr>msg = TfData_default, obs = [recorder 1], world = [], cout = []\<rparr>"]
  show ?thesis using len p by (simp add: imu_frame_def)
qed

subsection \<open>A frame with the wrong number of tokens\<close>

text \<open>
  Claim C2, as amended. For every frame whose token count is not 12, \<open>ConvertTokens\<close>
  writes one line to \<open>std::cout\<close> that carries the actual token count (and not the
  expected one), resets the record to \<open>TfData()\<close> and returns normally: no exception
  leaves the call and there is no error value. The outside world is as it was, whatever
  the observers are: none of them is called.
\<close>

theorem ConvertTokens_wrong_count:
  "length tokens \<noteq> 12 \<Longrightarrow>
   ConvertTokens dflt toVec toQuat tokens s =
     (None,
      s\<lparr>cout := cout s @ ''Error in parsing TF string with '' @ show_nat (length tokens)
                 @ '' fields! TFs will be empty.'' @ [CHR 0x0A],
        msg := dflt\<rparr>)"
  by (simp add: ConvertTokens_def)

theorem ConvertTokens_wrong_count_witness:
  "length tf_frame10 \<noteq> 12 \<and>
   ConvertTokens TfData_default (Vector3ToEigen parse_decimal) (Vector4ToEigen parse_decimal)
       tf_frame10
       \<lparr>msg = \<lparr>frame_id = ''FP_POI'', child_frame_id = ''FP_ECEF'',
                translation = \<lparr>vec_x = 1, vec_y = 2, vec_z = 3\<rparr>,
                rotation = \<lparr>quat_w = 1, quat_x = 0, quat_y = 0, quat_z = 0\<rparr>\<rparr>,
         obs = [recorder 1, recorder 2], world = [], cout = []\<rparr> =
     (None,
      \<lparr>msg = TfData_default, obs = [recorder 1, recorder 2], world = [],
        cout = ''Error in parsing TF string with 10 fields! TFs will be empty.'' @ [CHR 0x0A]\<rparr>)"
proof -
  have n: "length tf_frame10 \<noteq> 12" by (simp add: tf_frame10_length)
  have d: "show_nat 10 = ''10''" by (simp add: show_nat.simps)
  show ?thesis
    using n ConvertTokens_wrong_count [OF n, of TfData_default "Vector3ToEigen parse_decimal"
        "Vector4ToEigen parse_decimal"
        "\<lparr>msg = \<lparr>frame_id = ''FP_POI'', child_frame_id = ''FP_ECEF'',
                translation = \<lparr>vec_x = 1, vec_y = 2, vec_z = 3\<rparr>,
                rotation = \<lparr>quat_w = 1, quat_x = 0, quat_y = 0, quat_z = 0\<rparr>\<rparr>,
         obs = [recorder 1, recorder 2], world = [], cout = []\<rparr>"]
    by (simp add: tf_frame10_length d)
qed

text \<open>
  The claim as stated fails on the frame of ten tokens: the call ends without a failure,
  and the only report is the line with the count 10.
\<close>

theorem ConvertTokens_wrong_count_counterexample:
  "fst (ConvertTokens TfData_default (Vector3ToEigen parse_decimal) (Vector4ToEigen parse_decimal)
        tf_frame10 \<lparr>msg = TfData_default, obs = [recorder 1], world = [], cout = []\<rparr>) = None \<and>
   cout (snd (ConvertTokens TfData_default (Vector3ToEigen parse_decimal) (Vector4ToEigen parse_decimal)
        tf_frame10 \<lparr>msg = TfData_default, obs = [recorder 1], world = [], cout = []\<rparr>)) =
     ''Error in parsing TF string with 10 fields! TFs will be empty.'' @ [CHR 0x0A]"
  by (simp add: ConvertTokens_def tf_frame10_length show_nat.simps)

subsection \<open>Notification of the observers\<close>








subsection \<open>Text that is not a number\<close>






subsection \<open>Decoding does not depend on what was decoded before\<close>





subsection \<open>The wait before a reconnect\<close>

lemma sint_small: "- (2 ^ 63) \<le> k \<Longrightarrow> k < 2 ^ 63 \<Longrightarrow> sint (word_of_int k :: 64 word) = k"
  by (simp add: sint_sbintrunc' signed_take_bit_int_eq_self)

text \<open>
  What the code computes: for a delay from 0 up to 9223372036 seconds (beyond which the
  product no longer fits the count of a \<open>nanoseconds\<close>), the wait is the whole seconds
  of the delay, in nanoseconds.
\<close>

lemma reconnect_delay_ns_whole_seconds:
  assumes "0 \<le> d" and "d < 9223372036"
  shows "reconnect_delay_ns d = Some (\<lfloor>d\<rfloor> * 1000000000)"
proof -
  have lo: "0 \<le> \<lfloor>d\<rfloor>" using assms(1) by simp
  have hi: "\<lfloor>d\<rfloor> \<le> 9223372035" using assms(2) by (simp add: floor_le_iff)
  have u: "to_uint64 d = Some (word_of_int \<lfloor>d\<rfloor>)"
    using assms by (simp add: to_uint64_def)
  have w: "(word_of_int \<lfloor>d\<rfloor> :: 64 word) * 1000 * 1000 * 1000 =
             word_of_int (\<lfloor>d\<rfloor> * 1000000000)"
    by (simp add: mult.assoc)
  have low: "- (2 ^ 63) \<le> \<lfloor>d\<rfloor> * 1000000000"
  proof -
    have a: "(0::int) \<le> \<lfloor>d\<rfloor> * 1000000000" using lo by simp
    have b: "- (2 ^ 63) \<le> (0::int)" by simp
    from b a show ?thesis by (rule order_trans)
  qed
  have high: "\<lfloor>d\<rfloor> * 1000000000 < 2 ^ 63"
  proof -
    have a: "\<lfloor>d\<rfloor> * 1000000000 \<le> 9223372035 * 1000000000" using hi by simp
    have b: "(9223372035 * 1000000000 :: int) < 2 ^ 63" by simp
    from a b show ?thesis by (rule le_less_trans)
  qed
  show ?thesis
    unfolding reconnect_delay_ns_def u option.case w
    by (simp only: sint_small [OF low high])
qed

text \<open>
  Claim C7 fails on the code. The cast \<open>(uint64_t)\<close> applies to the delay in seconds
  before the products with 1000, so the fraction of a second is lost: a configured delay
  of half a second gives a wait of 0 nanoseconds, and one of a second and a half gives a
  wait of one second. With half a second configured, a cycle that reports a connection
  failure prints the delay, sleeps for 0 nanoseconds and calls \<open>Connect\<close> at once.
\<close>

theorem Run_reconnect_delay_truncated:
  "reconnect_delay_ns (1 / 2) = Some 0 \<and>
   reconnect_delay_ns (3 / 2) = Some 1000000000 \<and>
   Run \<lparr>rate = r, reconnect_delay = 1 / 2\<rparr> [Cycle False, Cycle True] =
     Some (False,
           [RunOnce, spin_some, printf_reconnecting (1 / 2), sleep_for 0, Connect,
            RunOnce, spin_some, rate_sleep r])"
  by (simp add: Run_def reconnect_delay_ns_def to_uint64_def iteration_def)

subsection \<open>The run loop\<close>





subsection \<open>Publishing the satellite fix\<close>

text \<open>
  Claim C9. For every BestGnssPos message, with \<open>nav_sat_fix\<close> the record that
  \<open>NovToData\<close> makes of it: the node publishes it on gnss1 exactly when its frame id is
  \<open>GNSS1\<close> or \<open>GNSS\<close> and gnss1 has a subscriber, on gnss2 exactly when its frame id is
  \<open>GNSS2\<close> and gnss2 has a subscriber; it publishes nothing else, and nothing at all
  for any other frame id.
\<close>

theorem BestGnssPos_routing:
  assumes "nav_sat_fix = NovToData header payload"
    and "out = BestGnssPosToPublishNavSatFix NovToData NavSatFixDataToMsg subscription_count
                 header payload"
  shows "(out = [(navsatfix_gnss1_pub, NavSatFixDataToMsg nav_sat_fix)] \<longleftrightarrow>
            (nav_frame_id nav_sat_fix = ''GNSS1'' \<or> nav_frame_id nav_sat_fix = ''GNSS'') \<and>
            0 < subscription_count navsatfix_gnss1_pub) \<and>
         (out = [(navsatfix_gnss2_pub, NavSatFixDataToMsg nav_sat_fix)] \<longleftrightarrow>
            nav_frame_id nav_sat_fix = ''GNSS2'' \<and> 0 < subscription_count navsatfix_gnss2_pub) \<and>
         (out = [] \<or> out = [(navsatfix_gnss1_pub, NavSatFixDataToMsg nav_sat_fix)] \<or>
          out = [(navsatfix_gnss2_pub, NavSatFixDataToMsg nav_sat_fix)]) \<and>
         (nav_frame_id nav_sat_fix \<noteq> ''GNSS1'' \<and> nav_frame_id nav_sat_fix \<noteq> ''GNSS'' \<and>
          nav_frame_id nav_sat_fix \<noteq> ''GNSS2'' \<longrightarrow> out = [])"
  using assms by (auto simp: BestGnssPosToPublishNavSatFix_def Let_def)

theorem BestGnssPos_routing_witness:
  "BestGnssPosToPublishNavSatFix (\<lambda>h p. \<lparr>nav_frame_id = p\<rparr>) nav_frame_id
     (\<lambda>pub. if pub = navsatfix_gnss2_pub then 0 else 1) () ''GNSS'' =
     [(navsatfix_gnss1_pub, ''GNSS'')] \<and>
   BestGnssPosToPublishNavSatFix (\<lambda>h p. \<lparr>nav_frame_id = p\<rparr>) nav_frame_id
     (\<lambda>pub. if pub = navsatfix_gnss2_pub then 0 else 1) () ''GNSS2'' = [] \<and>
   BestGnssPosToPublishNavSatFix (\<lambda>h p. \<lparr>nav_frame_id = p\<rparr>) nav_frame_id
     (\<lambda>pub. 1) () ''GNSS2'' = [(navsatfix_gnss2_pub, ''GNSS2'')] \<and>
   BestGnssPosToPublishNavSatFix (\<lambda>h p. \<lparr>nav_frame_id = p\<rparr>) nav_frame_id
     (\<lambda>pub. 1) () ''GNSS3'' = []"
proof -
  let ?nov = "\<lambda>(h :: unit) p. \<lparr>nav_frame_id = p\<rparr>"
  let ?one_sub = "\<lambda>pub. if pub = navsatfix_gnss2_pub then 0 else (1 :: nat)"
  let ?all_sub = "\<lambda>pub :: publisher. 1 :: nat"
  note r = BestGnssPos_routing [where NovToData = ?nov and NavSatFixDataToMsg = nav_frame_id
      and header = "()", OF refl refl]
  from r [where payload = "''GNSS''" and subscription_count = ?one_sub]
    r [where payload = "''GNSS2''" and subscription_count = ?one_sub]
    r [where payload = "''GNSS2''" and subscription_count = ?all_sub]
    r [where payload = "''GNSS3''" and subscription_count = ?all_sub]
  show ?thesis by auto
qed

subsection \<open>The yaw, pitch and roll of the inertial unit\<close>

text \<open>
  Claim C10. The TF observer publishes on \<open>imu_ypr\<close> exactly when the message made of
  the record has the child frame id \<open>FP_IMUH\<close> and the frame id \<open>FP_POI\<close>, which, for a
  \<open>TfDataToMsg\<close> that copies the two frame ids, is when the record has them. It then
  publishes one vector, whose x (the yaw) is 0 whatever the rotation is, and whose y and
  z are those of \<open>QuatToEul\<close> of the rotation. The observer does not throw.
\<close>

theorem TfObserver_imu_ypr:
  assumes "tf = TfDataToMsg data"
    and "TfObserver TfDataToMsg QuatToEul data published = (published', thrown)"
  shows "thrown = None \<and>
         (published' \<noteq> published \<longleftrightarrow>
            tf_child_frame_id tf = ''FP_IMUH'' \<and> header_frame_id (tf_header tf) = ''FP_POI'') \<and>
         (published' = published \<or>
          (\<exists>m. published' = published @ [(eul_imu_pub, m)] \<and>
               vec_x (vector m) = 0 \<and>
               vec_y (vector m) = vec_y (QuatToEul (rotation data)) \<and>
               vec_z (vector m) = vec_z (QuatToEul (rotation data)) \<and>
               v3_header m = \<lparr>stamp = stamp (tf_header tf), header_frame_id = ''FP_POI''\<rparr>)) \<and>
         (tf_child_frame_id tf = child_frame_id data \<and>
          header_frame_id (tf_header tf) = frame_id data \<longrightarrow>
            (published' \<noteq> published \<longleftrightarrow>
               child_frame_id data = ''FP_IMUH'' \<and> frame_id data = ''FP_POI''))"
  using assms by (auto simp: TfObserver_def Let_def split: if_splits)


theorem TfObserver_imu_ypr_witness:
  "TfObserver (\<lambda>d. \<lparr>tf_header = \<lparr>stamp = (), header_frame_id = frame_id d\<rparr>,
                     tf_child_frame_id = child_frame_id d\<rparr>)
      (\<lambda>q. \<lparr>vec_x = 7, vec_y = quat_x q, vec_z = quat_w q\<rparr>)
      \<lparr>frame_id = ''FP_POI'', child_frame_id = ''FP_IMUH'',
       translation = \<lparr>vec_x = 1 / 2, vec_y = - 5 / 4, vec_z = 0\<rparr>,
       rotation = \<lparr>quat_w = 0, quat_x = 1, quat_y = 0, quat_z = 0 :: real\<rparr>\<rparr> [] =
     ([(eul_imu_pub,
        \<lparr>v3_header = \<lparr>stamp = (), header_frame_id = ''FP_POI''\<rparr>,
         vector = \<lparr>vec_x = 0, vec_y = 1, vec_z = 0\<rparr>\<rparr>)], None :: exn option) \<and>
   TfObserver (\<lambda>d. \<lparr>tf_header = \<lparr>stamp = (), header_frame_id = frame_id d\<rparr>,
                     tf_child_frame_id = child_frame_id d\<rparr>)
      (\<lambda>q. \<lparr>vec_x = 7, vec_y = quat_x q, vec_z = quat_w q\<rparr>)
      \<lparr>frame_id = ''FP_POI'', child_frame_id = ''FP_ECEF'',
       translation = \<lparr>vec_x = 1, vec_y = 2, vec_z = 3\<rparr>,
       rotation = \<lparr>quat_w = 1, quat_x = 0, quat_y = 0, quat_z = 0 :: real\<rparr>\<rparr> [] =
     ([], None :: exn option)"
proof -
  let ?msg = "\<lambda>d :: real TfData. \<lparr>tf_header = \<lparr>stamp = (), header_frame_id = frame_id d\<rparr>,
                     tf_child_frame_id = child_frame_id d\<rparr>"
  let ?eul = "\<lambda>q :: real Quaterniond. \<lparr>vec_x = 7, vec_y = quat_x q, vec_z = quat_w q\<rparr>"
  let ?imu = "\<lparr>frame_id = ''FP_POI'', child_frame_id = ''FP_IMUH'',
       translation = \<lparr>vec_x = 1 / 2, vec_y = - 5 / 4, vec_z = 0\<rparr>,
       rotation = \<lparr>quat_w = 0, quat_x = 1, quat_y = 0, quat_z = 0 :: real\<rparr>\<rparr>"
  let ?ecef = "\<lparr>frame_id = ''FP_POI'', child_frame_id = ''FP_ECEF'',
       translation = \<lparr>vec_x = 1, vec_y = 2, vec_z = 3\<rparr>,
       rotation = \<lparr>quat_w = 1, quat_x = 0, quat_y = 0, quat_z = 0 :: real\<rparr>\<rparr>"
  obtain p1 t1 where a: "TfObserver ?msg ?eul ?imu [] =
      (p1 :: (publisher \<times> (unit, real) Vector3Stamped) list, t1 :: exn option)"
    by (cases "TfObserver ?msg ?eul ?imu [] ::
      (publisher \<times> (unit, real) Vector3Stamped) list \<times> exn option") blast
  obtain p2 t2 where b: "TfObserver ?msg ?eul ?ecef [] =
      (p2 :: (publisher \<times> (unit, real) Vector3Stamped) list, t2 :: exn option)"
    by (cases "TfObserver ?msg ?eul ?ecef [] ::
      (publisher \<times> (unit, real) Vector3Stamped) list \<times> exn option") blast
  from TfObserver_imu_ypr [OF refl a] TfObserver_imu_ypr [OF refl b]
  have "t1 = None" "t2 = None" "p2 = []"
    "\<exists>m. p1 = [(eul_imu_pub, m)] \<and> vec_x (vector m) = 0 \<and> vec_y (vector m) = 1 \<and>
       vec_z (vector m) = 0 \<and> v3_header m = \<lparr>stamp = (), header_frame_id = ''FP_POI''\<rparr>"
    by auto
  then show ?thesis
    unfolding a b by (auto intro: Vector3Stamped.equality Vector3d.equality)
qed

end
